theory Spec2Isabelle
  imports Complex_Main "HOL-Library.Multiset" "HOL-Library.Word"
begin

section \<open>JavaScript strings\<close>

text \<open>
  A JavaScript string is modelled as a \<^typ>\<open>string\<close>, one \<^typ>\<open>char\<close> per code unit
  (code units above 255 are outside the model). All identifiers the program builds are
  ASCII.
\<close>

fun startsWith :: "string \<Rightarrow> string \<Rightarrow> bool" where
  "startsWith s [] = True"
| "startsWith [] (p # ps) = False"
| "startsWith (c # cs) (p # ps) = (c = p \<and> startsWith cs ps)"

fun includes_str :: "string \<Rightarrow> string \<Rightarrow> bool" where
  "includes_str [] sub = startsWith [] sub"
| "includes_str (c # cs) sub = (startsWith (c # cs) sub \<or> includes_str cs sub)"

text \<open>\<open>s.slice(b, e)\<close> and \<open>s.slice(b)\<close>: negative indices count from the end, and
  both ends are clamped to the string.\<close>

definition slice_index :: "nat \<Rightarrow> int \<Rightarrow> nat" where
  "slice_index len i = (if i < 0 then nat (max (int len + i) 0) else min (nat i) len)"

definition slice_str :: "string \<Rightarrow> int \<Rightarrow> int \<Rightarrow> string" where
  "slice_str s b e =
     (let from = slice_index (length s) b; to = slice_index (length s) e
      in take (to - from) (drop from s))"

definition slice_from :: "string \<Rightarrow> int \<Rightarrow> string" where
  "slice_from s b = drop (slice_index (length s) b) s"

definition substring :: "string \<Rightarrow> nat \<Rightarrow> nat \<Rightarrow> string" where
  "substring s b e = take (max b e - min b e) (drop (min b e) s)"

text \<open>\<open>n.toString(radix)\<close> for a non-negative integer \<open>n\<close> and a radix from 2 to 36:
  digits \<open>0-9\<close> then \<open>a-z\<close>, no leading zero. The program calls it on \<open>Date.now()\<close>
  with radix 16 and 36, and with radix 10 in a template string.\<close>

definition digits :: string where
  "digits = ''0123456789abcdefghijklmnopqrstuvwxyz''"

definition digit_char :: "nat \<Rightarrow> char" where
  "digit_char d = digits ! d"

function toString :: "nat \<Rightarrow> nat \<Rightarrow> string" where
  "toString radix n =
     (if radix < 2 \<or> n < radix then [digit_char n]
      else toString radix (n div radix) @ [digit_char (n mod radix)])"
  by pat_completeness auto
termination
  by (relation "measure (\<lambda>(radix, n). n)") auto

declare toString.simps [simp del]

section \<open>JavaScript numbers\<close>

text \<open>
  A JavaScript number is a double. A finite double is held as the real number it denotes;
  \<open>NaN\<close> and the infinities are outside the model. The engine rounds the results of \<open>*\<close>
  and \<open>+\<close>: the two operations are parameters of the model, so that what is proved of the
  program holds however they round. Comparing two doubles is exact.
\<close>

record arith =
  num_mul :: "real \<Rightarrow> real \<Rightarrow> real"
  num_add :: "real \<Rightarrow> real \<Rightarrow> real"

text \<open>The double that the literal \<open>0.01\<close> denotes.\<close>

definition literal_0_01 :: real where
  "literal_0_01 = 5764607523034235 / 576460752303423488"

text \<open>
  The arithmetic of IEEE 754 binary64, rounding to nearest, ties to even, for results
  within the range of the finite doubles: the exact result is scaled by the power of two
  that leaves 53 significant bits (fewer below \<open>2\<^sup>-\<^sup>1\<^sup>0\<^sup>2\<^sup>2\<close>) and rounded to an integer.
\<close>

fun bit_length :: "nat \<Rightarrow> nat" where
  "bit_length n = (if n = 0 then 0 else Suc (bit_length (n div 2)))"

declare bit_length.simps [simp del]

text \<open>For \<open>x > 0\<close>, the \<open>e\<close> with \<open>2\<^sup>e \<le> x < 2\<^sup>e\<^sup>+\<^sup>1\<close>.\<close>

definition binade :: "real \<Rightarrow> int" where
  "binade x =
     (if 1 \<le> x then int (bit_length (nat \<lfloor>x\<rfloor>)) - 1
      else - int (bit_length (nat (\<lceil>1 / x\<rceil> - 1))))"

definition round_half_even :: "real \<Rightarrow> int" where
  "round_half_even x =
     (let f = \<lfloor>x\<rfloor>; r = x - of_int f
      in if r < 1 / 2 then f else if 1 / 2 < r then f + 1 else if even f then f else f + 1)"

definition round_positive :: "real \<Rightarrow> real" where
  "round_positive x =
     (let q = 2 powi (max (binade x) (- 1022) - 52)
      in of_int (round_half_even (x / q)) * q)"

definition round_binary64 :: "real \<Rightarrow> real" where
  "round_binary64 x =
     (if x = 0 then 0 else if 0 < x then round_positive x else - round_positive (- x))"

definition binary64 :: arith where
  "binary64 =
     \<lparr>num_mul = (\<lambda>a b. round_binary64 (a * b)), num_add = (\<lambda>a b. round_binary64 (a + b))\<rparr>"

section \<open>Data model\<close>

datatype MessageStatus = pending | approved | rejected

text \<open>A row of table \<open>profiles\<close>. Column \<open>id\<close> is \<open>profile_id\<close> here.\<close>

record profile =
  profile_id :: string
  wallet_address :: string
  username :: string
  avatar_url :: "string option"

text \<open>
  The columns of a message that both a row of table \<open>messages\<close> and the formatted
  \<open>MessageData\<close> carry. Column \<open>id\<close> is \<open>row_id\<close> here. \<open>created_at\<close> is held as the
  value \<open>new Date(created_at).getTime()\<close> reads from it, in milliseconds.
\<close>

record message_core =
  row_id :: string
  sender_id :: string
  recipient_id :: string
  amount :: real
  created_at :: int
  message_id :: string
  content :: string
  status :: MessageStatus
  transaction_signature :: "string option"

record message = message_core +
  updated_at :: "int option"

record MessageData = message_core +
  senderUsername :: string
  senderDisplayName :: string
  senderAvatarUrl :: string
  recipientUsername :: string

section \<open>Remote services\<close>

text \<open>A thrown JavaScript value: an \<open>Error\<close> with its message, or anything else.\<close>

datatype thrown = Error string | NonError string

datatype PublicKey = PublicKey (toBase58: string)

type_synonym byte = "8 word"

text \<open>The places of the program that read the clock or call a remote service.\<close>

datatype site =
    FM_profile | FM_insert | FM_messages | FM_profiles
  | SM_regen | SM_sender | SM_sender_insert | SM_recipient | SM_recipient_insert | SM_insert
  | UM_check | UM_by_id | UM_update_by_id | UM_update
  | CP_id

record accounts =
  sender :: PublicKey
  recipient :: PublicKey
  messageEscrow :: PublicKey
  systemProgram :: PublicKey

datatype instruction =
    createMessagePaymentIx int string
  | approveMessagePaymentIx
  | rejectMessagePaymentIx

datatype call =
    Db site
  | GetBalance PublicKey
  | Rpc instruction accounts

text \<open>
  What one run of an operation gets from outside: the clock at each place that reads it,
  whether the remote call at each place fails, the identifiers \<open>crypto.randomUUID\<close> and
  the database hand out, the text of \<open>Math.random().toString(16)\<close>, and the outcomes of
  the balance query and of the submitted transaction.
\<close>

record env =
  now :: "site \<Rightarrow> nat"
  fails :: "site \<Rightarrow> bool"
  randomUUID :: "(site \<Rightarrow> string) option"
  db_uuid :: string
  db_now :: int
  random16 :: string
  getBalance :: "thrown + real"
  rpc :: "thrown + string"

text \<open>The two tables, and the remote calls made so far, oldest first.\<close>

record world =
  profiles :: "profile list"
  messages :: "message list"
  trace :: "call list"

definition called :: "call \<Rightarrow> world \<Rightarrow> world" where
  "called c w = w\<lparr>trace := trace w @ [c]\<rparr>"

text \<open>\<open>.single()\<close>: the one row of the answer; an error when the call fails or the
  answer has no row or several.\<close>

definition single :: "bool \<Rightarrow> 'a list \<Rightarrow> unit + 'a" where
  "single failed rows = (if failed then Inl () else case rows of [r] \<Rightarrow> Inr r | _ \<Rightarrow> Inl ())"

section \<open>messageService: updateMessageStatus\<close>

definition wellformed :: "string \<Rightarrow> bool" where
  "wellformed messageId \<longleftrightarrow> startsWith messageId ''m'' \<and> 4 \<le> length messageId"

definition truthy :: "string option \<Rightarrow> bool" where
  "truthy s = (case s of None \<Rightarrow> False | Some t \<Rightarrow> t \<noteq> [])"

definition set_status :: "env \<Rightarrow> MessageStatus \<Rightarrow> string option \<Rightarrow> message \<Rightarrow> message" where
  "set_status e st transactionSignature m =
     (let m1 = m\<lparr>status := st\<rparr>;
          m2 = (if truthy transactionSignature
                then m1\<lparr>transaction_signature := transactionSignature\<rparr> else m1)
      in m2\<lparr>updated_at := Some (int (now e UM_update))\<rparr>)"

definition updateMessageStatus ::
  "env \<Rightarrow> world \<Rightarrow> string \<Rightarrow> MessageStatus \<Rightarrow> string option \<Rightarrow> bool \<times> world" where
  "updateMessageStatus e w messageId st transactionSignature =
     (if \<not> startsWith messageId ''m'' \<or> length messageId < 4 then (False, w)
      else
        let w1 = called (Db UM_check) w in
        case single (fails e UM_check) (filter (\<lambda>m. message_id m = messageId) (messages w1)) of
          Inl checkError \<Rightarrow>
            if includes_str messageId ''-'' then
              let w2 = called (Db UM_by_id) w1 in
              case single (fails e UM_by_id) (filter (\<lambda>m. row_id m = messageId) (messages w2)) of
                Inl idError \<Rightarrow> (False, w2)
              | Inr messageById \<Rightarrow>
                  let w3 = called (Db UM_update_by_id) w2 in
                  if fails e UM_update_by_id then (False, w3)
                  else (True, w3\<lparr>messages :=
                          map (\<lambda>m. if row_id m = row_id messageById
                                    then set_status e st transactionSignature m else m)
                            (messages w3)\<rparr>)
            else (False, w1)
        | Inr existingMessage \<Rightarrow>
            let w2 = called (Db UM_update) w1 in
            if fails e UM_update then (False, w2)
            else (True, w2\<lparr>messages :=
                    map (\<lambda>m. if message_id m = messageId
                              then set_status e st transactionSignature m else m)
                      (messages w2)\<rparr>))"

section \<open>messageService: saveMessage\<close>

text \<open>\<open>crypto.randomUUID ? crypto.randomUUID() : `profile-${Date.now()}...`\<close>\<close>

definition newProfileId :: "env \<Rightarrow> site \<Rightarrow> string \<Rightarrow> string" where
  "newProfileId e s suffix =
     (case randomUUID e of
        Some uuid \<Rightarrow> uuid s
      | None \<Rightarrow> ''profile-'' @ toString 10 (now e s) @ suffix)"

definition new_profile :: "string \<Rightarrow> string \<Rightarrow> profile" where
  "new_profile newId walletAddress =
     \<lparr>profile_id = newId, wallet_address = walletAddress,
      username = ''user_'' @ substring walletAddress 0 8, avatar_url = None\<rparr>"

text \<open>
  The block \<open>Get or create sender profile\<close> of \<open>saveMessage\<close>, which the source repeats
  for the recipient: look the wallet address up, and insert a profile when \<open>.single()\<close>
  gives an error. The result is the profile's id, or \<open>Inl\<close> when the insert fails. A
  remote call that fails leaves the tables as they are.
\<close>

definition getOrCreateProfile ::
  "env \<Rightarrow> site \<Rightarrow> site \<Rightarrow> string \<Rightarrow> string \<Rightarrow> world \<Rightarrow> (unit + string) \<times> world" where
  "getOrCreateProfile e lookup ins suffix walletAddress w =
     (let w1 = called (Db lookup) w in
      case single (fails e lookup)
             (filter (\<lambda>p. wallet_address p = walletAddress) (profiles w1)) of
        Inr found \<Rightarrow> (Inr (profile_id found), w1)
      | Inl lookupError \<Rightarrow>
          let newId = newProfileId e ins suffix;
              w2 = called (Db ins) w1
          in if fails e ins then (Inl (), w2)
             else (Inr newId,
                   w2\<lparr>profiles := profiles w2 @ [new_profile newId walletAddress]\<rparr>))"

definition regenerateMessageId :: "env \<Rightarrow> string" where
  "regenerateMessageId e = ''m'' @ slice_from (toString 36 (now e SM_regen)) (- 3)"

definition validMessageId :: "env \<Rightarrow> string \<Rightarrow> string" where
  "validMessageId e messageId =
     (if messageId = [] \<or> \<not> startsWith messageId ''m'' \<or> length messageId < 4
      then regenerateMessageId e else messageId)"

definition saveMessage ::
  "env \<Rightarrow> world \<Rightarrow> string \<Rightarrow> string \<Rightarrow> string \<Rightarrow> string \<Rightarrow> real \<Rightarrow> string option
   \<Rightarrow> bool \<times> world" where
  "saveMessage e w senderWalletAddress recipientWalletAddress messageId content' amount'
     transactionSignature =
     (case getOrCreateProfile e SM_sender SM_sender_insert ''-sender'' senderWalletAddress w of
        (Inl newSenderError, w1) \<Rightarrow> (False, w1)
      | (Inr senderId, w1) \<Rightarrow>
          (case getOrCreateProfile e SM_recipient SM_recipient_insert ''-recipient''
                  recipientWalletAddress w1 of
             (Inl newRecipientError, w2) \<Rightarrow> (False, w2)
           | (Inr recipientId, w2) \<Rightarrow>
               let w3 = called (Db SM_insert) w2 in
               if fails e SM_insert then (False, w3)
               else (True,
                     w3\<lparr>messages := messages w3 @
                        [\<lparr>row_id = db_uuid e, sender_id = senderId, recipient_id = recipientId,
                          amount = amount', created_at = db_now e,
                          message_id = validMessageId e messageId, content = content',
                          status = pending, transaction_signature = transactionSignature,
                          updated_at = None\<rparr>]\<rparr>)))"

section \<open>messageService: fetchMessages\<close>

datatype fetch_type = received | sent | all_messages

text \<open>\<open>[...new Set(xs)]\<close>: the first occurrence of each element, in order.\<close>

definition uniq :: "'a list \<Rightarrow> 'a list" where
  "uniq xs = rev (remdups (rev xs))"

definition matches_type :: "fetch_type \<Rightarrow> string \<Rightarrow> message \<Rightarrow> bool" where
  "matches_type t profileId m =
     (case t of
        received \<Rightarrow> recipient_id m = profileId
      | sent \<Rightarrow> sender_id m = profileId
      | all_messages \<Rightarrow> sender_id m = profileId \<or> recipient_id m = profileId)"

definition username_of :: "profile option \<Rightarrow> string" where
  "username_of p =
     (case p of None \<Rightarrow> ''Unknown User''
      | Some q \<Rightarrow> if username q = [] then ''Unknown User'' else username q)"

definition avatar_of :: "profile option \<Rightarrow> string" where
  "avatar_of p =
     (case p of None \<Rightarrow> [] | Some q \<Rightarrow> (case avatar_url q of None \<Rightarrow> [] | Some a \<Rightarrow> a))"

definition format_message :: "(string \<rightharpoonup> profile) \<Rightarrow> message \<Rightarrow> MessageData" where
  "format_message profilesMap msg =
     \<lparr>row_id = row_id msg, sender_id = sender_id msg, recipient_id = recipient_id msg,
      amount = amount msg, created_at = created_at msg, message_id = message_id msg,
      content = content msg, status = status msg,
      transaction_signature = transaction_signature msg,
      senderUsername = username_of (profilesMap (sender_id msg)),
      senderDisplayName = username_of (profilesMap (sender_id msg)),
      senderAvatarUrl = avatar_of (profilesMap (sender_id msg)),
      recipientUsername = username_of (profilesMap (recipient_id msg))\<rparr>"

text \<open>\<open>xs.sort((a, b) => new Date(b.created_at).getTime() - new Date(a.created_at).getTime())\<close>:
  a stable sort, larger \<open>created_at\<close> first.\<close>

definition sort_newest_first :: "MessageData list \<Rightarrow> MessageData list" where
  "sort_newest_first xs = sort_key (\<lambda>m. - created_at m) xs"

definition fetchMessages ::
  "env \<Rightarrow> world \<Rightarrow> string option \<Rightarrow> fetch_type \<Rightarrow> MessageData list \<times> world" where
  "fetchMessages e w walletAddress t =
     (case walletAddress of
        None \<Rightarrow> ([], w)
      | Some wa \<Rightarrow>
          if wa = [] then ([], w)
          else
            let w1 = called (Db FM_profile) w in
            case single (fails e FM_profile)
                   (filter (\<lambda>p. wallet_address p = wa) (profiles w1)) of
              Inl profileError \<Rightarrow>
                let newId = newProfileId e FM_insert [];
                    w2 = called (Db FM_insert) w1
                in if fails e FM_insert then ([], w2)
                   else ([], w2\<lparr>profiles := profiles w2 @ [new_profile newId wa]\<rparr>)
            | Inr userProfile \<Rightarrow>
                let w2 = called (Db FM_messages) w1 in
                if fails e FM_messages then ([], w2)
                else
                  let msgs = filter (matches_type t (profile_id userProfile)) (messages w2);
                      senderIds = filter (\<lambda>i. i \<noteq> []) (uniq (map sender_id msgs));
                      recipientIds = filter (\<lambda>i. i \<noteq> []) (uniq (map recipient_id msgs));
                      profileIds = uniq (senderIds @ recipientIds);
                      w3 = (if profileIds \<noteq> [] then called (Db FM_profiles) w2 else w2);
                      profilesData =
                        (if profileIds \<noteq> [] \<and> \<not> fails e FM_profiles
                         then filter (\<lambda>p. profile_id p \<in> set profileIds) (profiles w2)
                         else []);
                      profilesMap =
                        foldl (\<lambda>m p. m(profile_id p \<mapsto> p)) Map.empty profilesData;
                      formattedMessages = map (format_message profilesMap) msgs
                  in (sort_newest_first formattedMessages, w3))"

section \<open>anchorClient\<close>

record AnchorWallet =
  publicKey :: PublicKey

text \<open>
  The functions of the blockchain SDK the program calls: what \<open>new PublicKey(s)\<close> throws
  for a string, if anything, \<open>key.toBuffer()\<close>, and \<open>PublicKey.findProgramAddress\<close>, which
  gives an address and a bump or throws.
\<close>

record web3 =
  publicKeyError :: "string \<Rightarrow> thrown option"
  toBuffer :: "PublicKey \<Rightarrow> byte list"
  findProgramAddress :: "byte list list \<Rightarrow> PublicKey \<Rightarrow> thrown + (PublicKey \<times> nat)"

definition new_PublicKey :: "web3 \<Rightarrow> string \<Rightarrow> thrown + PublicKey" where
  "new_PublicKey lib s =
     (case publicKeyError lib s of Some err \<Rightarrow> Inl err | None \<Rightarrow> Inr (PublicKey s))"

definition PROGRAM_ID :: PublicKey where
  "PROGRAM_ID = PublicKey ''GPS2swU3p4XGWisAh3n4QWQuMvrQdfnz2eSwME2dp66A''"

definition SystemProgram_programId :: PublicKey where
  "SystemProgram_programId = PublicKey ''11111111111111111111111111111111''"

definition LAMPORTS_PER_SOL :: real where
  "LAMPORTS_PER_SOL = 1000000000"

record Program =
  provider_wallet :: AnchorWallet
  programId :: PublicKey

definition getProgram :: "AnchorWallet \<Rightarrow> Program" where
  "getProgram wallet = \<lparr>provider_wallet = wallet, programId = PROGRAM_ID\<rparr>"

text \<open>\<open>anchor.utils.bytes.utf8.encode\<close>: one byte below 128, two bytes from 128 to 255.\<close>

definition utf8_char :: "char \<Rightarrow> byte list" where
  "utf8_char c =
     (let n = (of_char c :: nat)
      in if n < 128 then [of_nat n] else [of_nat (192 + n div 64), of_nat (128 + n mod 64)])"

definition utf8_encode :: "string \<Rightarrow> byte list" where
  "utf8_encode s = concat (map utf8_char s)"

definition escrowSeeds :: "web3 \<Rightarrow> PublicKey \<Rightarrow> PublicKey \<Rightarrow> string \<Rightarrow> byte list list" where
  "escrowSeeds lib sender' recipient' messageId =
     [utf8_encode ''message-escrow'', toBuffer lib sender', toBuffer lib recipient',
      utf8_encode messageId]"

definition deriveMessageEscrowPDA ::
  "web3 \<Rightarrow> PublicKey \<Rightarrow> PublicKey \<Rightarrow> string \<Rightarrow> Program \<Rightarrow> thrown + (PublicKey \<times> nat)" where
  "deriveMessageEscrowPDA lib sender' recipient' messageId program =
     findProgramAddress lib (escrowSeeds lib sender' recipient' messageId) (programId program)"

definition checkSufficientBalance ::
  "arith \<Rightarrow> env \<Rightarrow> world \<Rightarrow> AnchorWallet \<Rightarrow> real \<Rightarrow> bool \<times> world" where
  "checkSufficientBalance js e w wallet requiredAmount =
     (let w1 = called (GetBalance (publicKey wallet)) w in
      case getBalance e of
        Inl error \<Rightarrow> (False, w1)
      | Inr walletBalance \<Rightarrow>
          let requiredLamports = num_mul js requiredAmount LAMPORTS_PER_SOL;
              estimatedFee = num_mul js literal_0_01 LAMPORTS_PER_SOL;
              totalRequired = num_add js requiredLamports estimatedFee
          in (walletBalance \<ge> totalRequired, w1))"

text \<open>
  \<open>new BN(number)\<close> of bn.js: the integer part of a number below \<open>2\<^sup>5\<^sup>3\<close> in magnitude
  (the fraction is cut off, the sign kept); at \<open>2\<^sup>5\<^sup>3\<close> and above its assertion fails.
\<close>

definition new_BN :: "real \<Rightarrow> thrown + int" where
  "new_BN number =
     (if \<bar>number\<bar> < 2 ^ 53
      then Inr (if number < 0 then - \<lfloor>- number\<rfloor> else \<lfloor>number\<rfloor>)
      else Inl (Error ''Assertion failed''))"

definition insufficient_funds :: string where
  "insufficient_funds =
     ''Insufficient funds. Please add more SOL to your wallet to complete this transaction.''"

definition generateMessageId :: "env \<Rightarrow> string" where
  "generateMessageId e = toString 16 (now e CP_id) @ ''-'' @ slice_str (random16 e) 2 10"

text \<open>The \<open>try\<close> block of \<open>createMessagePayment\<close>. The result of \<open>saveMessage\<close> is
  dropped, as in the source.\<close>

definition createMessagePayment_try ::
  "arith \<Rightarrow> web3 \<Rightarrow> env \<Rightarrow> world \<Rightarrow> AnchorWallet \<Rightarrow> string \<Rightarrow> real \<Rightarrow> string
   \<Rightarrow> (thrown + string) \<times> world" where
  "createMessagePayment_try js lib e w wallet recipientAddress amount' messageContent =
     (case checkSufficientBalance js e w wallet amount' of
        (False, w1) \<Rightarrow> (Inl (Error insufficient_funds), w1)
      | (True, w1) \<Rightarrow>
          let messageId = generateMessageId e;
              shortMessageId = slice_str messageId 0 4;
              program = getProgram wallet;
              lamports = num_mul js amount' LAMPORTS_PER_SOL
          in case new_PublicKey lib recipientAddress of
               Inl err \<Rightarrow> (Inl err, w1)
             | Inr recipientPublicKey \<Rightarrow>
                 (case deriveMessageEscrowPDA lib (publicKey wallet) recipientPublicKey
                         shortMessageId program of
                    Inl err \<Rightarrow> (Inl err, w1)
                  | Inr (escrowPDA, bump) \<Rightarrow>
                      (case new_BN lamports of
                         Inl err \<Rightarrow> (Inl err, w1)
                       | Inr bn \<Rightarrow>
                           let w2 = called
                                 (Rpc (createMessagePaymentIx bn shortMessageId)
                                    \<lparr>sender = publicKey wallet,
                                     recipient = recipientPublicKey,
                                     messageEscrow = escrowPDA,
                                     systemProgram = SystemProgram_programId\<rparr>) w1
                           in case rpc e of
                                Inl err \<Rightarrow> (Inl err, w2)
                              | Inr tx \<Rightarrow>
                                  (Inr tx,
                                   snd (saveMessage e w2 (toBase58 (publicKey wallet))
                                          recipientAddress messageId messageContent amount'
                                          (Some tx))))))"

text \<open>The \<open>catch\<close> block of \<open>createMessagePayment\<close>: what it throws for a caught value.\<close>

definition createMessagePayment_catch :: "thrown \<Rightarrow> thrown" where
  "createMessagePayment_catch error =
     (case error of
        Error msg \<Rightarrow>
          if includes_str msg ''insufficient funds'' \<or>
             includes_str msg ''attempt to debit an account'' \<or>
             includes_str msg ''Insufficient funds''
          then Error insufficient_funds
          else if includes_str msg ''User rejected''
          then Error ''Transaction was rejected by the wallet.''
          else error
      | NonError v \<Rightarrow> error)"

definition createMessagePayment ::
  "arith \<Rightarrow> web3 \<Rightarrow> env \<Rightarrow> world \<Rightarrow> AnchorWallet \<Rightarrow> string \<Rightarrow> real \<Rightarrow> string
   \<Rightarrow> (thrown + string) \<times> world" where
  "createMessagePayment js lib e w wallet recipientAddress amount' messageContent =
     (case createMessagePayment_try js lib e w wallet recipientAddress amount' messageContent of
        (Inl error, w') \<Rightarrow> (Inl (createMessagePayment_catch error), w')
      | (Inr tx, w') \<Rightarrow> (Inr tx, w'))"

definition approveMessagePayment ::
  "web3 \<Rightarrow> env \<Rightarrow> world \<Rightarrow> AnchorWallet \<Rightarrow> string \<Rightarrow> string \<Rightarrow> (thrown + string) \<times> world" where
  "approveMessagePayment lib e w wallet senderAddress messageId =
     (let shortMessageId = slice_str messageId 0 4;
          program = getProgram wallet
      in case new_PublicKey lib senderAddress of
           Inl err \<Rightarrow> (Inl err, w)
         | Inr senderPublicKey \<Rightarrow>
             (case deriveMessageEscrowPDA lib senderPublicKey (publicKey wallet)
                     shortMessageId program of
                Inl err \<Rightarrow> (Inl err, w)
              | Inr (escrowPDA, bump) \<Rightarrow>
                  let w1 = called
                        (Rpc approveMessagePaymentIx
                           \<lparr>sender = senderPublicKey, recipient = publicKey wallet,
                            messageEscrow = escrowPDA,
                            systemProgram = SystemProgram_programId\<rparr>) w
                  in case rpc e of
                       Inl err \<Rightarrow> (Inl err, w1)
                     | Inr tx \<Rightarrow>
                         (Inr tx, snd (updateMessageStatus e w1 messageId approved (Some tx)))))"

definition rejectMessagePayment ::
  "web3 \<Rightarrow> env \<Rightarrow> world \<Rightarrow> AnchorWallet \<Rightarrow> string \<Rightarrow> string \<Rightarrow> (thrown + string) \<times> world" where
  "rejectMessagePayment lib e w wallet senderAddress messageId =
     (let shortMessageId = slice_str messageId 0 4;
          program = getProgram wallet
      in case new_PublicKey lib senderAddress of
           Inl err \<Rightarrow> (Inl err, w)
         | Inr senderPublicKey \<Rightarrow>
             (case deriveMessageEscrowPDA lib senderPublicKey (publicKey wallet)
                     shortMessageId program of
                Inl err \<Rightarrow> (Inl err, w)
              | Inr (escrowPDA, bump) \<Rightarrow>
                  let w1 = called
                        (Rpc rejectMessagePaymentIx
                           \<lparr>sender = senderPublicKey, recipient = publicKey wallet,
                            messageEscrow = escrowPDA,
                            systemProgram = SystemProgram_programId\<rparr>) w
                  in case rpc e of
                       Inl err \<Rightarrow> (Inl err, w1)
                     | Inr tx \<Rightarrow>
                         (Inr tx, snd (updateMessageStatus e w1 messageId rejected (Some tx)))))"

section \<open>Predicates of the specification\<close>

text \<open>The pattern \<open>^m.{3,}$\<close>: an \<open>m\<close>, then three or more characters, none of them a
  line terminator.\<close>

definition matches_m_dot3 :: "string \<Rightarrow> bool" where
  "matches_m_dot3 s =
     (case s of
        [] \<Rightarrow> False
      | c # cs \<Rightarrow> c = CHR ''m'' \<and> 3 \<le> length cs \<and>
                 list_all (\<lambda>x. x \<noteq> CHR 0x0A \<and> x \<noteq> CHR 0x0D) cs)"

text \<open>The remote calls an operation added to the trace.\<close>

definition new_calls :: "world \<Rightarrow> world \<Rightarrow> call list" where
  "new_calls w w' = drop (length (trace w)) (trace w')"

text \<open>A standard UUID, as the database gives to column \<open>id\<close>: 8-4-4-4-12 hexadecimal
  digits with hyphens between the groups.\<close>

definition is_hex :: "char \<Rightarrow> bool" where
  "is_hex c \<longleftrightarrow> c \<in> set ''0123456789abcdefABCDEF''"

definition is_uuid :: "string \<Rightarrow> bool" where
  "is_uuid s \<longleftrightarrow>
     length s = 36 \<and>
     list_all is_hex (take 8 s) \<and> s ! 8 = CHR ''-'' \<and>
     list_all is_hex (take 4 (drop 9 s)) \<and> s ! 13 = CHR ''-'' \<and>
     list_all is_hex (take 4 (drop 14 s)) \<and> s ! 18 = CHR ''-'' \<and>
     list_all is_hex (take 4 (drop 19 s)) \<and> s ! 23 = CHR ''-'' \<and>
     list_all is_hex (drop 24 s)"


section \<open>Example runs\<close>

text \<open>An environment where every remote call succeeds, read at
  2023-11-14T22:13:20Z.\<close>

definition env_ok :: env where
  "env_ok =
     \<lparr>now = (\<lambda>s. 1700000000000), fails = (\<lambda>s. False),
      randomUUID = Some (\<lambda>s. if s = SM_recipient_insert then ''p-2'' else ''p-1''),
      db_uuid = ''r-9'', db_now = 1700000000500, random16 = ''0.8a3f19c2d4e6'',
      getBalance = Inr 5000000000, rpc = Inr ''sig1''\<rparr>"

definition world_empty :: world where
  "world_empty = \<lparr>profiles = [], messages = [], trace = []\<rparr>"



text \<open>Bob's profile and three messages to him, stored oldest, newest, middle.\<close>

definition world_inbox :: world where
  "world_inbox =
     \<lparr>profiles = [\<lparr>profile_id = ''p-2'', wallet_address = ''bob'', username = ''user_bob'',
                   avatar_url = None\<rparr>],
      messages =
        [\<lparr>row_id = ''r-1'', sender_id = ''p-1'', recipient_id = ''p-2'', amount = 1,
          created_at = 100, message_id = ''maaa'', content = ''one'', status = pending,
          transaction_signature = None, updated_at = None\<rparr>,
         \<lparr>row_id = ''r-2'', sender_id = ''p-1'', recipient_id = ''p-2'', amount = 2,
          created_at = 300, message_id = ''mbbb'', content = ''two'', status = pending,
          transaction_signature = None, updated_at = None\<rparr>,
         \<lparr>row_id = ''r-3'', sender_id = ''p-1'', recipient_id = ''p-2'', amount = 3,
          created_at = 200, message_id = ''mccc'', content = ''three'', status = approved,
          transaction_signature = None, updated_at = None\<rparr>],
      trace = []\<rparr>"

text \<open>Three profiles and five messages: three to Bob (stored oldest, newest, middle),
  one from Bob, one between the others.\<close>

definition world_mailbox :: world where
  "world_mailbox =
     \<lparr>profiles =
        [\<lparr>profile_id = ''p-2'', wallet_address = ''bob'', username = ''user_bob'',
          avatar_url = None\<rparr>,
         \<lparr>profile_id = ''p-1'', wallet_address = ''alice'', username = ''user_alice'',
          avatar_url = Some ''a.png''\<rparr>,
         \<lparr>profile_id = ''p-3'', wallet_address = ''carol'', username = [],
          avatar_url = None\<rparr>],
      messages =
        [\<lparr>row_id = ''r-1'', sender_id = ''p-1'', recipient_id = ''p-2'', amount = 1,
          created_at = 100, message_id = ''maaa'', content = ''one'', status = pending,
          transaction_signature = None, updated_at = None\<rparr>,
         \<lparr>row_id = ''r-2'', sender_id = ''p-1'', recipient_id = ''p-2'', amount = 2,
          created_at = 300, message_id = ''mbbb'', content = ''two'', status = pending,
          transaction_signature = None, updated_at = None\<rparr>,
         \<lparr>row_id = ''r-3'', sender_id = ''p-3'', recipient_id = ''p-2'', amount = 3,
          created_at = 200, message_id = ''mccc'', content = ''three'', status = approved,
          transaction_signature = None, updated_at = None\<rparr>,
         \<lparr>row_id = ''r-4'', sender_id = ''p-2'', recipient_id = ''p-1'', amount = 4,
          created_at = 250, message_id = ''mddd'', content = ''four'', status = pending,
          transaction_signature = None, updated_at = None\<rparr>,
         \<lparr>row_id = ''r-5'', sender_id = ''p-1'', recipient_id = ''p-3'', amount = 5,
          created_at = 150, message_id = ''meee'', content = ''five'', status = rejected,
          transaction_signature = None, updated_at = None\<rparr>],
      trace = []\<rparr>"



text \<open>The doubles that the literals \<open>1.1\<close> and \<open>8.3\<close> denote.\<close>

definition literal_1_1 :: real where
  "literal_1_1 = 2476979795053773 / 2251799813685248"

definition literal_8_3 :: real where
  "literal_8_3 = 2336242306698445 / 281474976710656"

text \<open>A wallet holding 0.5 SOL, asked to pay 1 SOL; and a balance query that fails.\<close>

definition alice_wallet :: AnchorWallet where
  "alice_wallet = \<lparr>publicKey = PublicKey ''alice''\<rparr>"

definition bob_wallet :: AnchorWallet where
  "bob_wallet = \<lparr>publicKey = PublicKey ''bob''\<rparr>"


definition env_offline :: env where
  "env_offline = env_ok\<lparr>getBalance := Inl (Error ''failed to get balance of account'')\<rparr>"

text \<open>A stand-in for the SDK: every string is a key, a key's bytes are those of its
  text, and the derived address spells out the seeds.\<close>

definition lib_example :: web3 where
  "lib_example =
     \<lparr>publicKeyError = (\<lambda>s. None), toBuffer = (\<lambda>k. utf8_encode (toBase58 k)),
      findProgramAddress =
        (\<lambda>seeds program. Inr (PublicKey (map (\<lambda>b. char_of (unat b)) (concat seeds)), 255))\<rparr>"

text \<open>Alice pays Bob 1 SOL; Bob approves with the persisted identifier.\<close>

definition world_paid :: world where
  "world_paid =
     snd (createMessagePayment binary64 lib_example env_ok world_empty alice_wallet ''bob'' 1
            ''hi'')"

definition world_settled :: world where
  "world_settled =
     snd (approveMessagePayment lib_example env_ok world_paid bob_wallet ''alice'' ''mv28'')"

section \<open>Properties of the identifier scheme\<close>

lemma toString_nonempty: "toString r n \<noteq> []"
  by (subst toString.simps) simp

lemma toString_step:
  "2 \<le> r \<Longrightarrow> r \<le> n \<Longrightarrow> toString r n = toString r (n div r) @ [digit_char (n mod r)]"
  by (subst toString.simps) simp

lemma toString_base: "n < r \<Longrightarrow> toString r n = [digit_char n]"
  by (subst toString.simps) simp

lemma toString36_example: "toString 36 1700000000000 = ''loyw3v28''"
  by (simp add: toString_step toString_base digit_char_def digits_def)

lemma toString16_example: "toString 16 1700000000000 = ''18bcfe56800''"
  by (simp add: toString_step toString_base digit_char_def digits_def)

lemma digit_char_in: "d < r \<Longrightarrow> r \<le> 36 \<Longrightarrow> digit_char d \<in> set (take r digits)"
proof -
  assume d: "d < r" and r: "r \<le> 36"
  have len: "length digits = 36" by (simp add: digits_def)
  have "d < length (take r digits)" using d r len by simp
  then have "take r digits ! d \<in> set (take r digits)" by (rule nth_mem)
  then show ?thesis using d by (simp add: digit_char_def)
qed

lemma toString_digits:
  "2 \<le> r \<Longrightarrow> r \<le> 36 \<Longrightarrow> set (toString r n) \<subseteq> set (take r digits)"
proof (induction r n rule: toString.induct)
  case (1 radix n)
  show ?case
  proof (cases "n < radix")
    case True
    then have "toString radix n = [digit_char n]" by (subst toString.simps) simp
    then show ?thesis using True 1(3) by (simp add: digit_char_in)
  next
    case False
    then have c: "\<not> (radix < 2 \<or> n < radix)" using 1(2) by simp
    have "set (toString radix (n div radix)) \<subseteq> set (take radix digits)"
      using 1(1) [OF c 1(2) 1(3)] .
    moreover have "digit_char (n mod radix) \<in> set (take radix digits)"
      using 1(2,3) by (intro digit_char_in) simp_all
    moreover have "toString radix n = toString radix (n div radix) @ [digit_char (n mod radix)]"
      using c by (subst toString.simps) simp
    ultimately show ?thesis by simp
  qed
qed

lemma toString36_length: "36 * 36 \<le> n \<Longrightarrow> 3 \<le> length (toString 36 n)"
proof -
  assume n: "36 * 36 \<le> n"
  have a: "toString 36 n = toString 36 (n div 36) @ [digit_char (n mod 36)]"
    using n by (subst toString.simps) simp
  have "36 \<le> n div 36" using n by simp
  then have b: "toString 36 (n div 36) =
      toString 36 (n div 36 div 36) @ [digit_char (n div 36 mod 36)]"
    by (subst toString.simps) simp
  have "1 \<le> length (toString 36 (n div 36 div 36))"
    using toString_nonempty [of 36 "n div 36 div 36"]
    by (cases "toString 36 (n div 36 div 36)") simp_all
  then show ?thesis by (simp add: a b)
qed

lemma last3_length: "3 \<le> length s \<Longrightarrow> length (slice_from s (- 3)) = 3"
  by (simp add: slice_from_def slice_index_def)

lemma last3_subset: "set (slice_from s b) \<subseteq> set s"
  by (simp add: slice_from_def set_drop_subset)

lemma regenerateMessageId_wellformed:
  assumes "36 * 36 \<le> now e SM_regen"
  shows "wellformed (regenerateMessageId e)" and "matches_m_dot3 (regenerateMessageId e)"
proof -
  let ?t = "slice_from (toString 36 (now e SM_regen)) (- 3)"
  have len: "length ?t = 3"
    using assms by (intro last3_length toString36_length)
  show "wellformed (regenerateMessageId e)"
    using len by (simp add: wellformed_def regenerateMessageId_def)
  have "set ?t \<subseteq> set (take 36 digits)"
    using last3_subset toString_digits [of 36 "now e SM_regen"] by fastforce
  then have "\<forall>x\<in>set ?t. x \<noteq> CHR 0x0A \<and> x \<noteq> CHR 0x0D"
    by (auto simp: digits_def)
  then show "matches_m_dot3 (regenerateMessageId e)"
    using len by (simp add: matches_m_dot3_def regenerateMessageId_def list_all_iff)
qed

lemma regenerateMessageId_example: "regenerateMessageId env_ok = ''mv28''"
  by (simp add: regenerateMessageId_def env_ok_def toString36_example slice_from_def
      slice_index_def)

section \<open>Properties of saveMessage\<close>

lemma getOrCreateProfile_messages:
  "messages (snd (getOrCreateProfile e l i sfx wa w)) = messages w"
  by (simp add: getOrCreateProfile_def called_def Let_def split: sum.splits)

lemma saveMessage_messages:
  assumes "saveMessage e w s r messageId c a sig = (ok, w')"
  shows "if ok
         then messages w' = messages w @
                [\<lparr>row_id = db_uuid e, sender_id = sender_id (last (messages w')),
                  recipient_id = recipient_id (last (messages w')),
                  amount = a, created_at = db_now e,
                  message_id = validMessageId e messageId, content = c,
                  status = pending, transaction_signature = sig, updated_at = None\<rparr>]
         else messages w' = messages w"
proof -
  obtain r1 w1 where g1: "getOrCreateProfile e SM_sender SM_sender_insert ''-sender'' s w = (r1, w1)"
    by (cases "getOrCreateProfile e SM_sender SM_sender_insert ''-sender'' s w") blast
  obtain r2 w2 where g2:
    "getOrCreateProfile e SM_recipient SM_recipient_insert ''-recipient'' r w1 = (r2, w2)"
    by (cases "getOrCreateProfile e SM_recipient SM_recipient_insert ''-recipient'' r w1") blast
  have m1: "messages w1 = messages w"
    using getOrCreateProfile_messages [of e SM_sender SM_sender_insert "''-sender''" s w]
    by (simp add: g1)
  have m2: "messages w2 = messages w"
    using getOrCreateProfile_messages [of e SM_recipient SM_recipient_insert "''-recipient''" r w1]
    by (simp add: g2 m1)
  show ?thesis
    using assms m1 m2
    by (auto simp: saveMessage_def g1 g2 called_def Let_def split: sum.splits if_splits)
qed

section \<open>Identifier validation on update\<close>

text \<open>
  C4. A messageId that does not start with \<open>m\<close>, or is shorter than 4 characters, makes
  \<open>updateMessageStatus\<close> return false; no remote call is made and both tables stay as
  they were.
\<close>

theorem updateMessageStatus_rejects_malformed:
  "\<not> startsWith messageId ''m'' \<or> length messageId < 4 \<Longrightarrow>
   updateMessageStatus e w messageId st transactionSignature = (False, w)"
  by (simp add: updateMessageStatus_def)

theorem updateMessageStatus_rejects_malformed_witness:
  "\<not> startsWith ''xx1'' ''m'' \<and> length ''xx1'' < 4 \<and>
   updateMessageStatus env_ok world_empty ''xx1'' approved None = (False, world_empty)"
  using updateMessageStatus_rejects_malformed [of "''xx1''" env_ok world_empty approved None]
  by simp

section \<open>Identifier repair on save\<close>

text \<open>
  C3. When \<open>saveMessage\<close> is given a malformed messageId (empty, not starting with \<open>m\<close>, or
  shorter than 4 characters) and persists a record, that record carries the regenerated
  identifier, which starts with \<open>m\<close>, has length at least 4 and matches \<open>^m.{3,}$\<close>; when
  it persists nothing, table \<open>messages\<close> is as before. The clock is taken to read at
  least 1296 ms after the epoch, so that its base-36 text has three characters.
\<close>

theorem saveMessage_regenerates_malformed:
  assumes "messageId = [] \<or> \<not> startsWith messageId ''m'' \<or> length messageId < 4"
    and "36 * 36 \<le> now e SM_regen"
    and "saveMessage e w s r messageId c a sig = (ok, w')"
  shows "if ok
         then \<exists>m. messages w' = messages w @ [m] \<and> message_id m = regenerateMessageId e \<and>
                  wellformed (message_id m) \<and> matches_m_dot3 (message_id m)
         else messages w' = messages w"
proof (cases ok)
  case True
  have v: "validMessageId e messageId = regenerateMessageId e"
    using assms(1) by (auto simp: validMessageId_def)
  show ?thesis
    using saveMessage_messages [OF assms(3)] True v
      regenerateMessageId_wellformed [OF assms(2)]
    by auto
next
  case False
  then show ?thesis using saveMessage_messages [OF assms(3)] by simp
qed

lemma saveMessage_example:
  "fst (saveMessage env_ok world_empty ''alice'' ''bob'' ''xx1'' ''hi'' 1 (Some ''sig1''))"
  by (simp add: saveMessage_def getOrCreateProfile_def single_def called_def world_empty_def
      env_ok_def Let_def)

theorem saveMessage_regenerates_malformed_witness:
  "\<not> startsWith ''xx1'' ''m'' \<and> length ''xx1'' < 4 \<and>
   36 * 36 \<le> now env_ok SM_regen \<and>
   fst (saveMessage env_ok world_empty ''alice'' ''bob'' ''xx1'' ''hi'' 1 (Some ''sig1'')) \<and>
   (\<exists>m. messages (snd (saveMessage env_ok world_empty ''alice'' ''bob'' ''xx1'' ''hi'' 1
                         (Some ''sig1'')))
          = messages world_empty @ [m] \<and>
        message_id m = ''mv28'' \<and> wellformed (message_id m) \<and> matches_m_dot3 (message_id m))"
proof -
  let ?r = "saveMessage env_ok world_empty ''alice'' ''bob'' ''xx1'' ''hi'' 1 (Some ''sig1'')"
  have h1: "''xx1'' = [] \<or> \<not> startsWith ''xx1'' ''m'' \<or> length ''xx1'' < 4" by simp
  have h2: "36 * 36 \<le> now env_ok SM_regen" by (simp add: env_ok_def)
  have h3: "?r = (fst ?r, snd ?r)" by simp
  have "\<exists>m. messages (snd ?r) = messages world_empty @ [m] \<and>
            message_id m = regenerateMessageId env_ok \<and>
            wellformed (message_id m) \<and> matches_m_dot3 (message_id m)"
    using saveMessage_regenerates_malformed [OF h1 h2 h3] saveMessage_example by simp
  then have "\<exists>m. messages (snd ?r) = messages world_empty @ [m] \<and>
            message_id m = ''mv28'' \<and>
            wellformed (message_id m) \<and> matches_m_dot3 (message_id m)"
    by (simp only: regenerateMessageId_example)
  with h2 saveMessage_example show ?thesis by simp
qed

section \<open>Status of a message record\<close>










section \<open>The fallback lookup of updateMessageStatus\<close>

lemma new_calls_self: "new_calls w w = []"
  by (simp add: new_calls_def)


lemma is_uuid_not_m: "is_uuid s \<Longrightarrow> \<not> startsWith s ''m''"
proof -
  assume u: "is_uuid s"
  then obtain c cs where s: "s = c # cs"
    by (cases s) (auto simp: is_uuid_def)
  with u have "is_hex c" by (simp add: is_uuid_def)
  then have "c \<noteq> CHR ''m''" by (auto simp: is_hex_def)
  with s show ?thesis by simp
qed

lemma fallback_needs_wellformed:
  assumes "Db UM_by_id \<in> set (new_calls w (snd (updateMessageStatus e w messageId st sig)))"
  shows "startsWith messageId ''m'' \<and> 4 \<le> length messageId \<and> includes_str messageId ''-''"
proof -
  have a: "startsWith messageId ''m'' \<and> 4 \<le> length messageId"
  proof (rule ccontr)
    assume "\<not> (startsWith messageId ''m'' \<and> 4 \<le> length messageId)"
    then have "updateMessageStatus e w messageId st sig = (False, w)"
      by (auto simp: updateMessageStatus_def)
    with assms show False by (simp add: new_calls_self)
  qed
  have b: "includes_str messageId ''-''"
  proof (rule ccontr)
    assume n: "\<not> includes_str messageId ''-''"
    have "set (new_calls w (snd (updateMessageStatus e w messageId st sig)))
            \<subseteq> {Db UM_check, Db UM_update}"
      using a n
      by (auto simp: updateMessageStatus_def new_calls_def called_def Let_def
          split: sum.splits if_splits)
    with assms show False by auto
  qed
  from a b show ?thesis by simp
qed

text \<open>
  C8. The lookup by database id is made only for an identifier that starts with \<open>m\<close>, has
  length at least 4 and contains a hyphen. For a standard UUID, whose first character is a
  hexadecimal digit, \<open>updateMessageStatus\<close> returns false at the format check: no remote
  call is made, the fallback among them.
\<close>

theorem fallback_lookup_guarded_by_format:
  "(Db UM_by_id \<in> set (new_calls w (snd (updateMessageStatus e w messageId st sig))) \<longrightarrow>
      startsWith messageId ''m'' \<and> 4 \<le> length messageId \<and> includes_str messageId ''-'') \<and>
   (is_uuid messageId \<longrightarrow>
      updateMessageStatus e w messageId st sig = (False, w) \<and>
      Db UM_by_id \<notin> set (new_calls w (snd (updateMessageStatus e w messageId st sig))))"
proof (intro conjI impI)
  assume "is_uuid messageId"
  then have "\<not> startsWith messageId ''m''" by (rule is_uuid_not_m)
  then show r: "updateMessageStatus e w messageId st sig = (False, w)"
    by (simp add: updateMessageStatus_def)
  show "Db UM_by_id \<notin> set (new_calls w (snd (updateMessageStatus e w messageId st sig)))"
    by (simp add: r new_calls_self)
qed (auto dest: fallback_needs_wellformed)

lemma fallback_example:
  "Db UM_by_id \<in> set (new_calls world_empty
       (snd (updateMessageStatus env_ok world_empty ''m-42'' approved None)))"
  by (simp add: updateMessageStatus_def single_def new_calls_def called_def world_empty_def
      env_ok_def Let_def)

lemma is_uuid_example: "is_uuid ''1b4e28ba-2fa1-11d2-883f-0016d3cca427''"
  by (simp add: is_uuid_def is_hex_def)

theorem fallback_lookup_guarded_by_format_witness:
  "Db UM_by_id \<in> set (new_calls world_empty
       (snd (updateMessageStatus env_ok world_empty ''m-42'' approved None))) \<and>
   startsWith ''m-42'' ''m'' \<and> 4 \<le> length ''m-42'' \<and> includes_str ''m-42'' ''-'' \<and>
   is_uuid ''1b4e28ba-2fa1-11d2-883f-0016d3cca427'' \<and>
   updateMessageStatus env_ok world_empty ''1b4e28ba-2fa1-11d2-883f-0016d3cca427'' approved None
     = (False, world_empty)"
  using fallback_lookup_guarded_by_format [of world_empty env_ok "''m-42''" approved None]
    fallback_lookup_guarded_by_format
      [of world_empty env_ok "''1b4e28ba-2fa1-11d2-883f-0016d3cca427''" approved None]
    fallback_example is_uuid_example
  by blast

section \<open>Properties of fetchMessages\<close>

text \<open>
  C5. For a non-empty wallet address that no profile carries, \<open>fetchMessages\<close> returns the
  empty list and, its insert succeeding, leaves table \<open>profiles\<close> with exactly one more
  row, which carries that wallet address; table \<open>messages\<close> is as before.
\<close>

theorem fetchMessages_creates_profile:
  assumes "wa \<noteq> []"
    and "wa \<notin> wallet_address ` set (profiles w)"
    and "\<not> fails e FM_insert"
  shows "fst (fetchMessages e w (Some wa) t) = [] \<and>
         (\<exists>p. profiles (snd (fetchMessages e w (Some wa) t)) = profiles w @ [p] \<and>
              wallet_address p = wa) \<and>
         messages (snd (fetchMessages e w (Some wa) t)) = messages w"
proof -
  have "filter (\<lambda>p. wallet_address p = wa) (profiles w) = []"
    using assms(2) by (auto simp: filter_empty_conv)
  then have "single (fails e FM_profile) (filter (\<lambda>p. wallet_address p = wa) (profiles w)) = Inl ()"
    by (simp add: single_def)
  then show ?thesis
    using assms(1,3)
    by (simp add: fetchMessages_def called_def Let_def new_profile_def)
qed

theorem fetchMessages_creates_profile_witness:
  "''alice'' \<noteq> [] \<and> ''alice'' \<notin> wallet_address ` set (profiles world_inbox) \<and>
   \<not> fails env_ok FM_insert \<and>
   fst (fetchMessages env_ok world_inbox (Some ''alice'') all_messages) = [] \<and>
   (\<exists>p. profiles (snd (fetchMessages env_ok world_inbox (Some ''alice'') all_messages))
          = profiles world_inbox @ [p] \<and> wallet_address p = ''alice'') \<and>
   messages (snd (fetchMessages env_ok world_inbox (Some ''alice'') all_messages))
     = messages world_inbox"
proof -
  have h1: "''alice'' \<noteq> []" by simp
  have h2: "''alice'' \<notin> wallet_address ` set (profiles world_inbox)"
    by (simp add: world_inbox_def)
  have h3: "\<not> fails env_ok FM_insert" by (simp add: env_ok_def)
  from fetchMessages_creates_profile [OF h1 h2 h3, of all_messages] h1 h2 h3
  show ?thesis by blast
qed








lemma world_mailbox_sent_and_all:
  "map row_id (fst (fetchMessages env_ok world_mailbox (Some ''bob'') sent)) = [''r-4'']"
  "map row_id (fst (fetchMessages env_ok world_mailbox (Some ''bob'') all_messages))
     = [''r-2'', ''r-4'', ''r-3'', ''r-1'']"
  by (simp_all add: fetchMessages_def single_def called_def world_mailbox_def env_ok_def Let_def
      matches_type_def uniq_def format_message_def sort_newest_first_def)






section \<open>The arithmetic of the examples\<close>

lemma bit_length_0: "bit_length 0 = 0"
  by (simp add: bit_length.simps)

lemma bit_length_step: "0 < n \<Longrightarrow> bit_length n = Suc (bit_length (n div 2))"
  by (subst bit_length.simps) simp

lemmas round_eval = binary64_def round_binary64_def round_positive_def binade_def
  round_half_even_def bit_length_0 bit_length_step Let_def LAMPORTS_PER_SOL_def

lemma one_sol_lamports: "num_mul binary64 1 LAMPORTS_PER_SOL = 1000000000"
  by (simp add: round_eval)

lemma fee_buffer_lamports: "num_mul binary64 literal_0_01 LAMPORTS_PER_SOL = 10000000"
  by (simp add: round_eval literal_0_01_def)

lemma one_sol_total: "num_add binary64 1000000000 10000000 = 1010000000"
  by (simp add: round_eval)

text \<open>
  The product \<open>1.1 * 1e9\<close> rounds down to 1100000000 although the double 1.1 is above
  1.1, and \<open>8.3 * 1e9\<close> rounds to a double above 8300000000. So a balance of 1.11 SOL
  passes the check for 1.1 SOL, and a balance of 8.31 SOL does not pass it for 8.3 SOL.
\<close>

lemma literal_1_1_lamports: "num_mul binary64 literal_1_1 LAMPORTS_PER_SOL = 1100000000"
  by (simp add: round_eval literal_1_1_def)

lemma literal_1_1_total: "num_add binary64 1100000000 10000000 = 1110000000"
  by (simp add: round_eval)

lemma literal_8_3_lamports:
  "num_mul binary64 literal_8_3 LAMPORTS_PER_SOL = 8703180800000001 / 1048576"
  by (simp add: round_eval literal_8_3_def)

lemma literal_8_3_total:
  "num_add binary64 (8703180800000001 / 1048576) 10000000 = 8713666560000001 / 1048576"
  by (simp add: round_eval)

lemma checkSufficientBalance_1_1:
  "fst (checkSufficientBalance binary64 (env_ok\<lparr>getBalance := Inr 1110000000\<rparr>) w wallet
          literal_1_1)"
  by (simp add: checkSufficientBalance_def literal_1_1_lamports fee_buffer_lamports
      literal_1_1_total)

lemma checkSufficientBalance_8_3:
  "\<not> fst (checkSufficientBalance binary64 (env_ok\<lparr>getBalance := Inr 8310000000\<rparr>) w wallet
            literal_8_3)"
  by (simp add: checkSufficientBalance_def literal_8_3_lamports fee_buffer_lamports
      literal_8_3_total)

lemma createMessagePayment_1_1:
  "fst (createMessagePayment binary64 lib_example (env_ok\<lparr>getBalance := Inr 1110000000\<rparr>)
          world_empty alice_wallet ''bob'' literal_1_1 ''hi'') = Inr ''sig1''"
proof -
  have "checkSufficientBalance binary64 (env_ok\<lparr>getBalance := Inr 1110000000\<rparr>) world_empty
          alice_wallet literal_1_1 = (True, called (GetBalance (publicKey alice_wallet)) world_empty)"
    by (simp add: checkSufficientBalance_def literal_1_1_lamports fee_buffer_lamports
        literal_1_1_total)
  then show ?thesis
    by (simp add: createMessagePayment_def createMessagePayment_try_def literal_1_1_lamports
        new_BN_def new_PublicKey_def deriveMessageEscrowPDA_def lib_example_def env_ok_def
        Let_def split: prod.splits)
qed

section \<open>The balance check of createMessagePayment\<close>

lemma includes_str_prefix: "startsWith s sub \<Longrightarrow> includes_str s sub"
  by (cases s) simp_all

lemma catch_insufficient_funds:
  "createMessagePayment_catch (Error insufficient_funds) = Error insufficient_funds"
proof -
  have "startsWith insufficient_funds ''Insufficient funds''"
    by (simp add: insufficient_funds_def)
  then have "includes_str insufficient_funds ''Insufficient funds''"
    by (rule includes_str_prefix)
  then show ?thesis by (simp add: createMessagePayment_catch_def)
qed

lemma createMessagePayment_balance_refused:
  assumes "checkSufficientBalance js e w wallet amount' = (False, w1)"
  shows "createMessagePayment js lib e w wallet recipientAddress amount' messageContent =
           (Inl (Error insufficient_funds), w1)"
  using assms
  by (simp add: createMessagePayment_def createMessagePayment_try_def catch_insufficient_funds)



text \<open>
  C9. When the balance query throws, \<open>checkSufficientBalance\<close> returns false and
  \<open>createMessagePayment\<close> throws the insufficient-funds error, exactly as it does for a
  balance that was read and is below the total the program computes.
\<close>

theorem balance_query_failure_reported_as_insufficient_funds:
  assumes "getBalance e = Inl err"
  shows "fst (checkSufficientBalance js e w wallet amount') = False \<and>
         createMessagePayment js lib e w wallet recipientAddress amount' messageContent =
           (Inl (Error insufficient_funds), called (GetBalance (publicKey wallet)) w) \<and>
         (walletBalance <
            num_add js (num_mul js amount' LAMPORTS_PER_SOL)
              (num_mul js literal_0_01 LAMPORTS_PER_SOL) \<longrightarrow>
            createMessagePayment js lib e w wallet recipientAddress amount' messageContent =
            createMessagePayment js lib (e\<lparr>getBalance := Inr walletBalance\<rparr>) w wallet
              recipientAddress amount' messageContent)"
proof (intro conjI impI)
  have c: "checkSufficientBalance js e w wallet amount' =
             (False, called (GetBalance (publicKey wallet)) w)"
    using assms by (simp add: checkSufficientBalance_def Let_def)
  then show "fst (checkSufficientBalance js e w wallet amount') = False" by simp
  show r: "createMessagePayment js lib e w wallet recipientAddress amount' messageContent =
           (Inl (Error insufficient_funds), called (GetBalance (publicKey wallet)) w)"
    by (rule createMessagePayment_balance_refused [OF c])
  assume "walletBalance <
            num_add js (num_mul js amount' LAMPORTS_PER_SOL)
              (num_mul js literal_0_01 LAMPORTS_PER_SOL)"
  then have "checkSufficientBalance js (e\<lparr>getBalance := Inr walletBalance\<rparr>) w wallet amount' =
               (False, called (GetBalance (publicKey wallet)) w)"
    by (simp add: checkSufficientBalance_def Let_def)
  from createMessagePayment_balance_refused [OF this] r
  show "createMessagePayment js lib e w wallet recipientAddress amount' messageContent =
            createMessagePayment js lib (e\<lparr>getBalance := Inr walletBalance\<rparr>) w wallet
              recipientAddress amount' messageContent"
    by simp
qed

theorem balance_query_failure_reported_as_insufficient_funds_witness:
  "getBalance env_offline = Inl (Error ''failed to get balance of account'') \<and>
   fst (checkSufficientBalance binary64 env_offline world_empty alice_wallet 1) = False \<and>
   createMessagePayment binary64 lib_example env_offline world_empty alice_wallet ''bob'' 1
     ''hi'' =
     (Inl (Error insufficient_funds), called (GetBalance (publicKey alice_wallet)) world_empty) \<and>
   500000000 <
     num_add binary64 (num_mul binary64 1 LAMPORTS_PER_SOL)
       (num_mul binary64 literal_0_01 LAMPORTS_PER_SOL) \<and>
   createMessagePayment binary64 lib_example env_offline world_empty alice_wallet ''bob'' 1
     ''hi'' =
   createMessagePayment binary64 lib_example (env_offline\<lparr>getBalance := Inr 500000000\<rparr>)
     world_empty alice_wallet ''bob'' 1 ''hi''"
proof -
  have h1: "getBalance env_offline = Inl (Error ''failed to get balance of account'')"
    by (simp add: env_offline_def env_ok_def)
  have h2: "500000000 < num_add binary64 (num_mul binary64 1 LAMPORTS_PER_SOL)
     (num_mul binary64 literal_0_01 LAMPORTS_PER_SOL)"
    by (simp add: one_sol_lamports fee_buffer_lamports one_sol_total)
  note t = balance_query_failure_reported_as_insufficient_funds
    [OF h1, of binary64 world_empty alice_wallet 1 lib_example "''bob''" "''hi''" 500000000]
  from t h1 h2 show ?thesis by blast
qed

section \<open>Escrow address derivation\<close>

text \<open>
  C7. Two calls of \<open>deriveMessageEscrowPDA\<close> with the same sender, recipient and seed give
  the same result, whichever wallets the two programs were built for: the result is
  \<open>findProgramAddress\<close> of the four seeds and the fixed program id, and the function
  reads neither clock, random source nor database.
\<close>

theorem deriveMessageEscrowPDA_deterministic:
  assumes "sender1 = sender2" and "recipient1 = recipient2" and "seed1 = seed2"
  shows "deriveMessageEscrowPDA lib sender1 recipient1 seed1 (getProgram wallet1) =
         deriveMessageEscrowPDA lib sender2 recipient2 seed2 (getProgram wallet2) \<and>
         deriveMessageEscrowPDA lib sender1 recipient1 seed1 (getProgram wallet1) =
         findProgramAddress lib
           [utf8_encode ''message-escrow'', toBuffer lib sender1, toBuffer lib recipient1,
            utf8_encode seed1] PROGRAM_ID"
  using assms by (simp add: deriveMessageEscrowPDA_def getProgram_def escrowSeeds_def)

theorem deriveMessageEscrowPDA_deterministic_witness:
  "PublicKey ''alice'' = PublicKey ''alice'' \<and> PublicKey ''bob'' = PublicKey ''bob'' \<and>
   ''ab12'' = ''ab12'' \<and>
   deriveMessageEscrowPDA lib_example (PublicKey ''alice'') (PublicKey ''bob'') ''ab12''
     (getProgram alice_wallet) =
   deriveMessageEscrowPDA lib_example (PublicKey ''alice'') (PublicKey ''bob'') ''ab12''
     (getProgram bob_wallet) \<and>
   deriveMessageEscrowPDA lib_example (PublicKey ''alice'') (PublicKey ''bob'') ''ab12''
     (getProgram alice_wallet) =
   findProgramAddress lib_example
     [utf8_encode ''message-escrow'', toBuffer lib_example (PublicKey ''alice''),
      toBuffer lib_example (PublicKey ''bob''), utf8_encode ''ab12''] PROGRAM_ID"
  using deriveMessageEscrowPDA_deterministic
    [of "PublicKey ''alice''" "PublicKey ''alice''" "PublicKey ''bob''" "PublicKey ''bob''"
        "''ab12''" "''ab12''" lib_example alice_wallet bob_wallet]
  by blast

section \<open>The escrow seed on creation and on approval\<close>

lemma slice_0_4: "slice_str s 0 4 = take 4 s"
  by (simp add: slice_str_def slice_index_def Let_def min_def)

lemma generateMessageId_head:
  "\<exists>c cs. generateMessageId e = c # cs \<and> c \<in> set ''0123456789abcdef''"
proof -
  obtain c t where t: "toString 16 (now e CP_id) = c # t"
    using toString_nonempty [of 16 "now e CP_id"] by (cases "toString 16 (now e CP_id)") auto
  have "set (toString 16 (now e CP_id)) \<subseteq> set (take 16 digits)"
    by (rule toString_digits) simp_all
  with t have "c \<in> set (take 16 digits)" by auto
  then have "c \<in> set ''0123456789abcdef''" by (simp add: digits_def)
  with t show ?thesis by (auto simp: generateMessageId_def)
qed

lemma generateMessageId_regenerated:
  "validMessageId e (generateMessageId e) = regenerateMessageId e"
proof -
  obtain c cs where g: "generateMessageId e = c # cs" and c: "c \<in> set ''0123456789abcdef''"
    using generateMessageId_head by blast
  from c have "c \<noteq> CHR ''m''" by auto
  with g show ?thesis by (simp add: validMessageId_def)
qed

lemma utf8_hex_not_m:
  "c \<in> set ''0123456789abcdef'' \<Longrightarrow> utf8_encode (c # x) \<noteq> utf8_encode (CHR ''m'' # y)"
  by (auto simp: utf8_encode_def utf8_char_def)

lemma seeds_differ:
  "utf8_encode (slice_str (generateMessageId e) 0 4) \<noteq> utf8_encode (slice_str (regenerateMessageId e) 0 4)"
proof -
  obtain c cs where g: "generateMessageId e = c # cs" and c: "c \<in> set ''0123456789abcdef''"
    using generateMessageId_head by blast
  show ?thesis
    using utf8_hex_not_m [OF c]
    by (simp add: slice_0_4 g regenerateMessageId_def)
qed

lemma saveMessage_persisted:
  assumes "saveMessage e w s r messageId c a sig = (ok, w')"
    and "messages w' = messages w @ [m]"
  shows "message_id m = validMessageId e messageId \<and> status m = pending"
proof (cases ok)
  case True
  let ?R = "\<lparr>row_id = db_uuid e, sender_id = sender_id (last (messages w')),
                  recipient_id = recipient_id (last (messages w')),
                  amount = a, created_at = db_now e,
                  message_id = validMessageId e messageId, content = c,
                  status = pending, transaction_signature = sig, updated_at = None\<rparr>"
  have "messages w' = messages w @ [?R]"
    using saveMessage_messages [OF assms(1)] True by simp
  with assms(2) have "m = ?R" by simp
  then have "message_id m = message_id ?R" and "status m = status ?R" by (rule arg_cong)+
  then show ?thesis by simp
next
  case False
  then have "messages w' = messages w"
    using saveMessage_messages [OF assms(1)] by simp
  with assms(2) show ?thesis by simp
qed

lemma getOrCreateProfile_trace:
  "\<exists>evs. trace (snd (getOrCreateProfile e l i sfx wa w)) = trace w @ evs"
  by (auto simp: getOrCreateProfile_def called_def Let_def split: sum.splits)

lemma saveMessage_trace:
  "\<exists>evs. trace (snd (saveMessage e w s r messageId c a sig)) = trace w @ evs"
proof -
  obtain r1 w1 where g1: "getOrCreateProfile e SM_sender SM_sender_insert ''-sender'' s w = (r1, w1)"
    by (cases "getOrCreateProfile e SM_sender SM_sender_insert ''-sender'' s w") blast
  obtain r2 w2 where g2:
    "getOrCreateProfile e SM_recipient SM_recipient_insert ''-recipient'' r w1 = (r2, w2)"
    by (cases "getOrCreateProfile e SM_recipient SM_recipient_insert ''-recipient'' r w1") blast
  obtain evs1 where t1: "trace w1 = trace w @ evs1"
    using getOrCreateProfile_trace [of e SM_sender SM_sender_insert "''-sender''" s w]
    by (auto simp: g1)
  obtain evs2 where t2: "trace w2 = trace w1 @ evs2"
    using getOrCreateProfile_trace [of e SM_recipient SM_recipient_insert "''-recipient''" r w1]
    by (auto simp: g2)
  show ?thesis
    using t1 t2
    by (auto simp: saveMessage_def g1 g2 called_def Let_def split: sum.splits)
qed

lemma updateMessageStatus_trace:
  "\<exists>evs. trace (snd (updateMessageStatus e w messageId st sig)) = trace w @ evs"
  by (auto simp: updateMessageStatus_def called_def Let_def split: sum.splits)

lemma in_new_calls: "trace w' = trace w @ evs \<Longrightarrow> c \<in> set evs \<Longrightarrow> c \<in> set (new_calls w w')"
  by (simp add: new_calls_def)

lemma createMessagePayment_success:
  assumes "createMessagePayment js lib e w wallet recipientAddress amount' messageContent
             = (Inr tx, w')"
  shows "\<exists>escrow bump lamports.
           deriveMessageEscrowPDA lib (publicKey wallet) (PublicKey recipientAddress)
             (slice_str (generateMessageId e) 0 4) (getProgram wallet) = Inr (escrow, bump) \<and>
           new_BN (num_mul js amount' LAMPORTS_PER_SOL) = Inr lamports \<and>
           w' = snd (saveMessage e
             (called (Rpc (createMessagePaymentIx lamports
                        (slice_str (generateMessageId e) 0 4))
                      \<lparr>sender = publicKey wallet, recipient = PublicKey recipientAddress,
                       messageEscrow = escrow, systemProgram = SystemProgram_programId\<rparr>)
                (called (GetBalance (publicKey wallet)) w))
             (toBase58 (publicKey wallet)) recipientAddress (generateMessageId e) messageContent
             amount' (Some tx))"
  using assms
  by (auto simp: createMessagePayment_def createMessagePayment_try_def checkSufficientBalance_def
      new_PublicKey_def Let_def
      split: prod.splits sum.splits if_splits bool.splits option.splits)

lemma approveMessagePayment_rpc:
  assumes "approveMessagePayment lib e w wallet senderAddress messageId = (Inr tx, w')"
  shows "\<exists>escrow bump.
           deriveMessageEscrowPDA lib (PublicKey senderAddress) (publicKey wallet)
             (slice_str messageId 0 4) (getProgram wallet) = Inr (escrow, bump) \<and>
           Rpc approveMessagePaymentIx
             \<lparr>sender = PublicKey senderAddress, recipient = publicKey wallet,
              messageEscrow = escrow, systemProgram = SystemProgram_programId\<rparr>
             \<in> set (new_calls w w')"
proof -
  from assms obtain escrow bump where
    d: "deriveMessageEscrowPDA lib (PublicKey senderAddress) (publicKey wallet)
          (slice_str messageId 0 4) (getProgram wallet) = Inr (escrow, bump)"
    and w': "w' = snd (updateMessageStatus e
             (called (Rpc approveMessagePaymentIx
                      \<lparr>sender = PublicKey senderAddress, recipient = publicKey wallet,
                       messageEscrow = escrow, systemProgram = SystemProgram_programId\<rparr>) w)
             messageId approved (Some tx))"
    by (auto simp: approveMessagePayment_def new_PublicKey_def Let_def
        split: prod.splits sum.splits if_splits option.splits)
  let ?rpc = "Rpc approveMessagePaymentIx
                \<lparr>sender = PublicKey senderAddress, recipient = publicKey wallet,
                 messageEscrow = escrow, systemProgram = SystemProgram_programId\<rparr>"
  obtain evs where "trace w' = trace (called ?rpc w) @ evs"
    using updateMessageStatus_trace [of e "called ?rpc w"] w' by blast
  then have "trace w' = trace w @ ([?rpc] @ evs)" by (simp add: called_def)
  then have "?rpc \<in> set (new_calls w w')" by (rule in_new_calls) simp
  with d show ?thesis by blast
qed

lemma rejectMessagePayment_rpc:
  assumes "rejectMessagePayment lib e w wallet senderAddress messageId = (Inr tx, w')"
  shows "\<exists>escrow bump.
           deriveMessageEscrowPDA lib (PublicKey senderAddress) (publicKey wallet)
             (slice_str messageId 0 4) (getProgram wallet) = Inr (escrow, bump) \<and>
           Rpc rejectMessagePaymentIx
             \<lparr>sender = PublicKey senderAddress, recipient = publicKey wallet,
              messageEscrow = escrow, systemProgram = SystemProgram_programId\<rparr>
             \<in> set (new_calls w w')"
proof -
  from assms obtain escrow bump where
    d: "deriveMessageEscrowPDA lib (PublicKey senderAddress) (publicKey wallet)
          (slice_str messageId 0 4) (getProgram wallet) = Inr (escrow, bump)"
    and w': "w' = snd (updateMessageStatus e
             (called (Rpc rejectMessagePaymentIx
                      \<lparr>sender = PublicKey senderAddress, recipient = publicKey wallet,
                       messageEscrow = escrow, systemProgram = SystemProgram_programId\<rparr>) w)
             messageId rejected (Some tx))"
    by (auto simp: rejectMessagePayment_def new_PublicKey_def Let_def
        split: prod.splits sum.splits if_splits option.splits)
  let ?rpc = "Rpc rejectMessagePaymentIx
                \<lparr>sender = PublicKey senderAddress, recipient = publicKey wallet,
                 messageEscrow = escrow, systemProgram = SystemProgram_programId\<rparr>"
  obtain evs where "trace w' = trace (called ?rpc w) @ evs"
    using updateMessageStatus_trace [of e "called ?rpc w"] w' by blast
  then have "trace w' = trace w @ ([?rpc] @ evs)" by (simp add: called_def)
  then have "?rpc \<in> set (new_calls w w')" by (rule in_new_calls) simp
  with d show ?thesis by blast
qed

text \<open>
  C1 does not hold of the code. \<open>createMessagePayment\<close> derives the escrow address from the
  first four characters of the identifier it generates, which begins with a hexadecimal
  digit of the clock; \<open>saveMessage\<close> finds that identifier malformed and persists a fresh
  one beginning with \<open>m\<close>. Approving or rejecting with the persisted \<open>message_id\<close> and the
  original sender and recipient therefore hands \<open>findProgramAddress\<close> seeds that differ
  from those of the creation in the last seed.
\<close>

theorem escrow_seeds_differ_after_save:
  assumes "createMessagePayment js lib e w wallet recipientAddress amount' messageContent
             = (Inr tx, w')"
    and "messages w' = messages w @ [m]"
    and "publicKey recipientWallet = PublicKey recipientAddress"
    and "approveMessagePayment lib e2 w2 recipientWallet (toBase58 (publicKey wallet))
           (message_id m) = (Inr tx2, w2') \<or>
         rejectMessagePayment lib e2 w2 recipientWallet (toBase58 (publicKey wallet))
           (message_id m) = (Inr tx2, w2')"
  shows "\<exists>seed1 seed2 escrow1 escrow2 bump1 bump2 lamports ix.
           seed1 = slice_str (generateMessageId e) 0 4 \<and>
           seed2 = slice_str (message_id m) 0 4 \<and>
           deriveMessageEscrowPDA lib (publicKey wallet) (publicKey recipientWallet) seed1
             (getProgram wallet) = Inr (escrow1, bump1) \<and>
           new_BN (num_mul js amount' LAMPORTS_PER_SOL) = Inr lamports \<and>
           Rpc (createMessagePaymentIx lamports seed1)
             \<lparr>sender = publicKey wallet, recipient = publicKey recipientWallet,
              messageEscrow = escrow1, systemProgram = SystemProgram_programId\<rparr>
             \<in> set (new_calls w w') \<and>
           deriveMessageEscrowPDA lib (publicKey wallet) (publicKey recipientWallet) seed2
             (getProgram recipientWallet) = Inr (escrow2, bump2) \<and>
           (ix = approveMessagePaymentIx \<or> ix = rejectMessagePaymentIx) \<and>
           Rpc ix
             \<lparr>sender = publicKey wallet, recipient = publicKey recipientWallet,
              messageEscrow = escrow2, systemProgram = SystemProgram_programId\<rparr>
             \<in> set (new_calls w2 w2') \<and>
           escrowSeeds lib (publicKey wallet) (publicKey recipientWallet) seed1 \<noteq>
           escrowSeeds lib (publicKey wallet) (publicKey recipientWallet) seed2"
proof -
  let ?seed1 = "slice_str (generateMessageId e) 0 4"
  let ?seed2 = "slice_str (message_id m) 0 4"
  let ?rk = "publicKey recipientWallet"
  from createMessagePayment_success [OF assms(1)] assms(3)
  obtain escrow1 bump1 lamports where
    d1: "deriveMessageEscrowPDA lib (publicKey wallet) ?rk ?seed1 (getProgram wallet)
           = Inr (escrow1, bump1)"
    and bn: "new_BN (num_mul js amount' LAMPORTS_PER_SOL) = Inr lamports"
    and w': "w' = snd (saveMessage e
             (called (Rpc (createMessagePaymentIx lamports ?seed1)
                      \<lparr>sender = publicKey wallet, recipient = ?rk,
                       messageEscrow = escrow1, systemProgram = SystemProgram_programId\<rparr>)
                (called (GetBalance (publicKey wallet)) w))
             (toBase58 (publicKey wallet)) recipientAddress (generateMessageId e) messageContent
             amount' (Some tx))"
    by auto
  let ?rpc1 = "Rpc (createMessagePaymentIx lamports ?seed1)
                      \<lparr>sender = publicKey wallet, recipient = ?rk,
                       messageEscrow = escrow1, systemProgram = SystemProgram_programId\<rparr>"
  let ?w1 = "called ?rpc1 (called (GetBalance (publicKey wallet)) w)"
  obtain evs where "trace w' = trace ?w1 @ evs"
    using saveMessage_trace [of e ?w1] w' by blast
  then have "trace w' = trace w @ ([GetBalance (publicKey wallet), ?rpc1] @ evs)"
    by (simp add: called_def)
  then have r1: "?rpc1 \<in> set (new_calls w w')"
    by (rule in_new_calls) simp
  obtain ok where sv: "saveMessage e ?w1 (toBase58 (publicKey wallet)) recipientAddress
      (generateMessageId e) messageContent amount' (Some tx) = (ok, w')"
    using w' by (metis prod.collapse)
  have "messages w' = messages ?w1 @ [m]" using assms(2) by (simp add: called_def)
  from saveMessage_persisted [OF sv this]
  have "message_id m = validMessageId e (generateMessageId e)" by simp
  then have mid: "message_id m = regenerateMessageId e"
    by (simp add: generateMessageId_regenerated)
  have "\<exists>escrow2 bump2 ix.
          deriveMessageEscrowPDA lib (publicKey wallet) ?rk ?seed2 (getProgram recipientWallet)
            = Inr (escrow2, bump2) \<and>
          (ix = approveMessagePaymentIx \<or> ix = rejectMessagePaymentIx) \<and>
          Rpc ix \<lparr>sender = publicKey wallet, recipient = ?rk,
                  messageEscrow = escrow2, systemProgram = SystemProgram_programId\<rparr>
            \<in> set (new_calls w2 w2')"
    using assms(4)
  proof
    assume "approveMessagePayment lib e2 w2 recipientWallet (toBase58 (publicKey wallet))
           (message_id m) = (Inr tx2, w2')"
    from approveMessagePayment_rpc [OF this] show ?thesis by auto
  next
    assume "rejectMessagePayment lib e2 w2 recipientWallet (toBase58 (publicKey wallet))
           (message_id m) = (Inr tx2, w2')"
    from rejectMessagePayment_rpc [OF this] show ?thesis by auto
  qed
  then obtain escrow2 bump2 ix where
    d2: "deriveMessageEscrowPDA lib (publicKey wallet) ?rk ?seed2 (getProgram recipientWallet)
           = Inr (escrow2, bump2)"
    and ix: "ix = approveMessagePaymentIx \<or> ix = rejectMessagePaymentIx"
    and r2: "Rpc ix \<lparr>sender = publicKey wallet, recipient = ?rk,
                  messageEscrow = escrow2, systemProgram = SystemProgram_programId\<rparr>
            \<in> set (new_calls w2 w2')"
    by blast
  have ne: "escrowSeeds lib (publicKey wallet) ?rk ?seed1 \<noteq>
            escrowSeeds lib (publicKey wallet) ?rk ?seed2"
    using seeds_differ [of e] by (simp add: escrowSeeds_def mid)
  from d1 bn r1 d2 ix r2 ne show ?thesis by blast
qed

lemma generateMessageId_example: "generateMessageId env_ok = ''18bcfe56800-8a3f19c2''"
  by (simp add: generateMessageId_def env_ok_def toString16_example slice_str_def
      slice_index_def)

lemma checkSufficientBalance_example:
  "getBalance e = Inr 5000000000 \<Longrightarrow>
   checkSufficientBalance binary64 e w wallet 1 = (True, called (GetBalance (publicKey wallet)) w)"
  by (simp add: checkSufficientBalance_def one_sol_lamports fee_buffer_lamports one_sol_total)

lemma new_BN_example: "new_BN 1000000000 = Inr 1000000000"
  by (simp add: new_BN_def)

lemma createMessagePayment_example:
  "fst (createMessagePayment binary64 lib_example env_ok world_empty alice_wallet ''bob'' 1
     ''hi'') = Inr ''sig1''"
  by (simp add: createMessagePayment_def createMessagePayment_try_def
      checkSufficientBalance_example one_sol_lamports new_BN_example new_PublicKey_def
      deriveMessageEscrowPDA_def lib_example_def env_ok_def Let_def split: prod.splits)

lemma world_paid_messages:
  "messages world_paid =
     [\<lparr>row_id = ''r-9'', sender_id = ''p-1'', recipient_id = ''p-2'', amount = 1,
       created_at = 1700000000500, message_id = ''mv28'', content = ''hi'', status = pending,
       transaction_signature = Some ''sig1'', updated_at = None\<rparr>]"
  by (simp add: world_paid_def createMessagePayment_def createMessagePayment_try_def
      checkSufficientBalance_example one_sol_lamports new_BN_example new_PublicKey_def
      deriveMessageEscrowPDA_def lib_example_def alice_wallet_def
      saveMessage_def getOrCreateProfile_def single_def called_def
      world_empty_def env_ok_def Let_def newProfileId_def new_profile_def validMessageId_def
      regenerateMessageId_def toString36_example toString16_example generateMessageId_def
      slice_from_def slice_index_def slice_str_def split: prod.splits)

lemma approveMessagePayment_example:
  "fst (approveMessagePayment lib_example env_ok world_paid bob_wallet ''alice'' ''mv28'')
     = Inr ''sig1''"
  by (simp add: approveMessagePayment_def new_PublicKey_def deriveMessageEscrowPDA_def
      lib_example_def env_ok_def Let_def split: prod.splits)
theorem escrow_seeds_differ_after_save_witness:
  "createMessagePayment binary64 lib_example env_ok world_empty alice_wallet ''bob'' 1 ''hi''
     = (Inr ''sig1'', world_paid) \<and>
   messages world_paid = messages world_empty @ [hd (messages world_paid)] \<and>
   publicKey bob_wallet = PublicKey ''bob'' \<and>
   approveMessagePayment lib_example env_ok world_paid bob_wallet
     (toBase58 (publicKey alice_wallet)) (message_id (hd (messages world_paid)))
     = (Inr ''sig1'', world_settled) \<and>
   slice_str (generateMessageId env_ok) 0 4 = ''18bc'' \<and>
   slice_str (message_id (hd (messages world_paid))) 0 4 = ''mv28'' \<and>
   escrowSeeds lib_example (publicKey alice_wallet) (publicKey bob_wallet) ''18bc'' \<noteq>
   escrowSeeds lib_example (publicKey alice_wallet) (publicKey bob_wallet) ''mv28''"
proof -
  have h1: "createMessagePayment binary64 lib_example env_ok world_empty alice_wallet ''bob'' 1
              ''hi'' = (Inr ''sig1'', world_paid)"
    using createMessagePayment_example by (simp add: world_paid_def prod_eq_iff)
  have h2: "messages world_paid = messages world_empty @ [hd (messages world_paid)]"
    by (simp add: world_paid_messages world_empty_def)
  have h3: "publicKey bob_wallet = PublicKey ''bob''" by (simp add: bob_wallet_def)
  have mid: "message_id (hd (messages world_paid)) = ''mv28''"
    by (simp add: world_paid_messages)
  have h4: "approveMessagePayment lib_example env_ok world_paid bob_wallet
     (toBase58 (publicKey alice_wallet)) (message_id (hd (messages world_paid)))
     = (Inr ''sig1'', world_settled)"
    using approveMessagePayment_example
    by (simp add: world_settled_def prod_eq_iff mid alice_wallet_def)
  have s1: "slice_str (generateMessageId env_ok) 0 4 = ''18bc''"
    by (simp add: generateMessageId_example slice_0_4)
  have s2: "slice_str (message_id (hd (messages world_paid))) 0 4 = ''mv28''"
    by (simp add: mid slice_0_4)
  from escrow_seeds_differ_after_save [OF h1 h2 h3 disjI1 [OF h4]]
  have "escrowSeeds lib_example (publicKey alice_wallet) (publicKey bob_wallet)
          (slice_str (generateMessageId env_ok) 0 4) \<noteq>
        escrowSeeds lib_example (publicKey alice_wallet) (publicKey bob_wallet)
          (slice_str (message_id (hd (messages world_paid))) 0 4)"
    by blast
  then have "escrowSeeds lib_example (publicKey alice_wallet) (publicKey bob_wallet) ''18bc'' \<noteq>
        escrowSeeds lib_example (publicKey alice_wallet) (publicKey bob_wallet) ''mv28''"
    unfolding s1 s2 .
  with h1 h2 h3 h4 s1 s2 show ?thesis by blast
qed

end
